theory Spec2Isabelle
  imports Complex_Main "HOL-Library.Word"
begin

section \<open>Errors raised by the strategy and plugin code\<close>

text \<open>
  Every \<^verbatim>\<open>raise\<close> of the sources is a constructor carrying the message of the
  exception. The collaborators outside these files (the tensor library, the XLA runtime
  \<^verbatim>\<open>xm\<close>, the serialiser, the checkpoint delegate, the optimizer) are parameters of the
  model. The module is modelled as loaded with the runtime present (the
  \<^verbatim>\<open>if _TPU_AVAILABLE\<close> branch of the imports), and a collaborator is taken to return,
  with one exception: \<^verbatim>\<open>xm.all_gather\<close> rejects a tensor without dimensions, which is
  the reason for a guard in the source.
\<close>

datatype error =
    RuntimeError string
  | ValueError string
  | TypeError string
  | IndexError string
  | MisconfigurationException string

section \<open>The strategy object and the runtime around it\<close>

datatype device = CPU | XLA nat

datatype checkpoint_io = XLACheckpointIO | CustomCheckpointIO nat

text \<open>
  \<^verbatim>\<open>TPUSpawnStrategy\<close>: the attributes \<^verbatim>\<open>_launched\<close> and \<^verbatim>\<open>_checkpoint_io\<close> of
  \<^verbatim>\<open>tpu_spawn.py\<close>, and the three integers that the properties \<^verbatim>\<open>local_rank\<close>,
  \<^verbatim>\<open>global_rank\<close> and \<^verbatim>\<open>world_size\<close> of the base class read.
\<close>

record strategy =
  launched :: bool
  checkpoint_io_attr :: "checkpoint_io option"
  local_rank :: nat
  global_rank :: nat
  world_size :: nat

text \<open>
  The process around a strategy: the strategy object itself and the process-wide
  attribute \<^verbatim>\<open>rank_zero_only.rank\<close>.
\<close>

record process =
  self :: strategy
  rank_zero_only_rank :: "nat option"

text \<open>
  The XLA runtime as one process sees it. \<^verbatim>\<open>xla_device\<close> is what \<^verbatim>\<open>xm.xla_device()\<close>
  returns, \<^verbatim>\<open>HOST_WORLD_SIZE\<close> is the name \<^verbatim>\<open>xenv.HOST_WORLD_SIZE\<close>. A collective call
  of this process meets the data that the other processes pass to the same call:
  \<^verbatim>\<open>peers_before\<close> from the processes of smaller ordinal, \<^verbatim>\<open>peers_after\<close> from those of
  larger ordinal, each in ordinal order.
\<close>

record 'd xla =
  xla_device :: device
  HOST_WORLD_SIZE :: string
  peers_before :: "'d list"
  peers_after :: "'d list"

definition participants :: "'d xla \<Rightarrow> 'd \<Rightarrow> 'd list" where
  "participants xm d = peers_before xm @ d # peers_after xm"

text \<open>
  The constructor sets \<^verbatim>\<open>_launched\<close> to false and keeps the checkpoint delegate it is
  given; the ranks start at whatever the base class holds.
\<close>

definition TPUSpawnStrategy_init :: "checkpoint_io option \<Rightarrow> nat \<Rightarrow> nat \<Rightarrow> nat \<Rightarrow> strategy" where
  "TPUSpawnStrategy_init checkpoint_io l g w =
     \<lparr>launched = False, checkpoint_io_attr = checkpoint_io,
      local_rank = l, global_rank = g, world_size = w\<rparr>"

subsection \<open>Device access\<close>

definition msg_root_device :: string where
  "msg_root_device = ''Accessing the XLA device before processes have spawned is not allowed.''"

definition root_device :: "'d xla \<Rightarrow> strategy \<Rightarrow> error + device" where
  "root_device xm s =
     (if \<not> launched s then Inl (RuntimeError msg_root_device) else Inr (xla_device xm))"

subsection \<open>Worker setup\<close>

text \<open>
  The cluster environment of the base class: what it makes of a process index.
\<close>

record cluster_environment =
  local_rank_of :: "nat \<Rightarrow> nat"
  global_rank_of :: "nat \<Rightarrow> nat"
  world_size_of :: "nat \<Rightarrow> nat"

text \<open>
  Modelled from the spec: \<^verbatim>\<open>set_world_ranks\<close> of the base class \<^verbatim>\<open>DDPSpawnStrategy\<close>
  is not among the sources. The spec says that worker setup "computes and stores this
  process's global/local rank and world size from the process index"; how each of the
  three is computed from the index is left to the cluster environment.
\<close>

definition set_world_ranks :: "cluster_environment \<Rightarrow> nat \<Rightarrow> strategy \<Rightarrow> strategy" where
  "set_world_ranks env process_idx s =
     s\<lparr>local_rank := local_rank_of env process_idx,
       global_rank := global_rank_of env process_idx,
       world_size := world_size_of env process_idx\<rparr>"

definition worker_setup :: "cluster_environment \<Rightarrow> nat \<Rightarrow> process \<Rightarrow> process" where
  "worker_setup env process_idx p =
     (let s1 = (self p)\<lparr>launched := True\<rparr>;
          s2 = set_world_ranks env process_idx s1
      in p\<lparr>self := s2, rank_zero_only_rank := Some (global_rank s2)\<rparr>)"

subsection \<open>Distribution test\<close>

definition is_distributed :: "'d xla \<Rightarrow> (string \<rightharpoonup> string) \<Rightarrow> strategy \<Rightarrow> bool" where
  "is_distributed xm environ s =
     (environ (HOST_WORLD_SIZE xm) \<noteq> None \<and> world_size s \<noteq> 1)"

section \<open>Reduce\<close>

text \<open>
  The argument \<^verbatim>\<open>reduce_op: Optional[Union[ReduceOp, str]]\<close>. Python does not enforce
  the annotation, so any other object is a possible value; it is kept with the text that
  \<^verbatim>\<open>str()\<close> gives for it.
\<close>

datatype ReduceOp =
  ReduceOp_SUM | ReduceOp_PRODUCT | ReduceOp_MIN | ReduceOp_MAX
  | ReduceOp_BAND | ReduceOp_BOR | ReduceOp_BXOR

datatype reduce_op_arg =
    PyNone
  | PyStr string
  | PyReduceOp ReduceOp
  | PyObject string

fun str_ReduceOp :: "ReduceOp \<Rightarrow> string" where
  "str_ReduceOp ReduceOp_SUM = ''ReduceOp.SUM''"
| "str_ReduceOp ReduceOp_PRODUCT = ''ReduceOp.PRODUCT''"
| "str_ReduceOp ReduceOp_MIN = ''ReduceOp.MIN''"
| "str_ReduceOp ReduceOp_MAX = ''ReduceOp.MAX''"
| "str_ReduceOp ReduceOp_BAND = ''ReduceOp.BAND''"
| "str_ReduceOp ReduceOp_BOR = ''ReduceOp.BOR''"
| "str_ReduceOp ReduceOp_BXOR = ''ReduceOp.BXOR''"

fun py_format :: "reduce_op_arg \<Rightarrow> string" where
  "py_format PyNone = ''None''"
| "py_format (PyStr x) = x"
| "py_format (PyReduceOp k) = str_ReduceOp k"
| "py_format (PyObject r) = r"

text \<open>
  \<^verbatim>\<open>str.lower\<close> on the code points below 256, which is what a \<^typ>\<open>char\<close> holds: the
  letters A to Z, and the upper-case letters of Latin-1 (192 to 222 without the
  multiplication sign 215), move up by 32. Strings with larger code points are outside
  the model.
\<close>

definition lower_char :: "char \<Rightarrow> char" where
  "lower_char c =
     (let n = (of_char c :: nat)
      in if (65 \<le> n \<and> n \<le> 90) \<or> (192 \<le> n \<and> n \<le> 222 \<and> n \<noteq> 215)
         then char_of (n + 32) else c)"

definition lower :: "string \<Rightarrow> string" where
  "lower x = map lower_char x"

text \<open>The argument \<^verbatim>\<open>output: Union[Tensor, Any]\<close>, split by \<^verbatim>\<open>isinstance(output, Tensor)\<close>.\<close>

datatype ('v, 't) tensor_or_any = Tensor 't | NonTensor 'v

text \<open>
  \<^verbatim>\<open>xm.mesh_reduce(tag, data, reduce_fn)\<close> applies \<^verbatim>\<open>reduce_fn\<close> to the list of the data of
  all processes; Python's built-in \<^verbatim>\<open>sum\<close> adds a list from the left, starting at 0.
  The arguments \<^verbatim>\<open>group\<close> of \<^verbatim>\<open>reduce\<close> and \<^verbatim>\<open>group\<close>, \<^verbatim>\<open>sync_grads\<close> of
  \<^verbatim>\<open>all_gather\<close> are not read by the source and are left out.
  A tensor is any value of a semiring with division: the arithmetic is exact, the rounding
  of floating-point element types is not modelled.
\<close>

definition mesh_reduce :: "'d xla \<Rightarrow> string \<Rightarrow> 'd \<Rightarrow> ('d list \<Rightarrow> 'r) \<Rightarrow> 'r" where
  "mesh_reduce xm tag d reduce_fn = reduce_fn (participants xm d)"

definition py_sum :: "'t::{zero,plus} list \<Rightarrow> 't" where
  "py_sum xs = foldl (+) 0 xs"

definition msg_reduce :: string where
  "msg_reduce = ''Currently, the TPUSpawnStrategy only supports `sum`, `mean`, `avg` for the reduce operation, got: ''"

text \<open>
  The two tests of the validation (\<^verbatim>\<open>isinstance(reduce_op, ReduceOp) and reduce_op !=
  ReduceOp.SUM\<close>, \<^verbatim>\<open>isinstance(reduce_op, str) and reduce_op.lower() not in ("sum", "mean",
  "avg")\<close>), the test before the division (\<^verbatim>\<open>isinstance(reduce_op, str) and
  reduce_op.lower() in ("avg", "mean")\<close>), and the coercion of the first statement of
  \<^verbatim>\<open>reduce\<close>, which reads \<^verbatim>\<open>root_device\<close> for an input that is not a tensor. The message
  of the ValueError ends with the operation as an f-string prints it. A world size of 0
  does not occur; division by it is not what the tensor library does, and the statements
  about the mean exclude it.
\<close>

definition invalid_reduce_op :: "reduce_op_arg \<Rightarrow> bool" where
  "invalid_reduce_op reduce_op =
     (case reduce_op of PyReduceOp k \<Rightarrow> k \<noteq> ReduceOp_SUM | _ \<Rightarrow> False)"

definition invalid_reduce_op_str :: "reduce_op_arg \<Rightarrow> bool" where
  "invalid_reduce_op_str reduce_op =
     (case reduce_op of
        PyStr x \<Rightarrow> lower x \<notin> set [''sum'', ''mean'', ''avg'']
      | _ \<Rightarrow> False)"

definition is_mean :: "reduce_op_arg \<Rightarrow> bool" where
  "is_mean reduce_op =
     (case reduce_op of
        PyStr x \<Rightarrow> lower x \<in> set [''avg'', ''mean'']
      | _ \<Rightarrow> False)"

definition to_tensor ::
  "('v \<Rightarrow> device \<Rightarrow> 't) \<Rightarrow> 't xla \<Rightarrow> strategy \<Rightarrow> ('v, 't) tensor_or_any \<Rightarrow> error + 't" where
  "to_tensor torch_tensor xm s out =
     (case out of
        Tensor t \<Rightarrow> Inr t
      | NonTensor v \<Rightarrow>
          (case root_device xm s of
             Inl e \<Rightarrow> Inl e
           | Inr dev \<Rightarrow> Inr (torch_tensor v dev)))"

text \<open>
  The tensor that a call contributes when the coercion goes through: the input itself, or
  the input made a tensor on the device of the runtime.
\<close>

definition local_tensor ::
  "('v \<Rightarrow> device \<Rightarrow> 't) \<Rightarrow> 't xla \<Rightarrow> ('v, 't) tensor_or_any \<Rightarrow> 't" where
  "local_tensor torch_tensor xm out =
     (case out of Tensor t \<Rightarrow> t | NonTensor v \<Rightarrow> torch_tensor v (xla_device xm))"

definition reduce ::
  "('v \<Rightarrow> device \<Rightarrow> 't) \<Rightarrow> 't xla \<Rightarrow> strategy \<Rightarrow> ('v, 't) tensor_or_any \<Rightarrow> reduce_op_arg
     \<Rightarrow> error + ('t::{semiring_1,inverse})" where
  "reduce torch_tensor xm s out reduce_op =
     (case to_tensor torch_tensor xm s out of
        Inl e \<Rightarrow> Inl e
      | Inr t \<Rightarrow>
          if invalid_reduce_op reduce_op \<or> invalid_reduce_op_str reduce_op
          then Inl (ValueError (msg_reduce @ py_format reduce_op))
          else
            (let r = mesh_reduce xm ''reduce'' t py_sum
             in Inr (if is_mean reduce_op then r / of_nat (world_size s) else r)))"

section \<open>Tensors with a layout, all-gather and broadcast\<close>

text \<open>
  For the gathering operations a tensor is its element type, its device, its shape and its
  elements in row-major order. The elements of a float tensor are rationals.
\<close>

datatype dtype = torch_float | torch_uint8 | torch_int64

record 'a tensor =
  dtype :: dtype
  device :: device
  shape :: "nat list"
  data :: "'a list"

definition dim :: "'a tensor \<Rightarrow> nat" where
  "dim t = length (shape t)"

definition unsqueeze0 :: "'a tensor \<Rightarrow> 'a tensor" where
  "unsqueeze0 t = t\<lparr>shape := 1 # shape t\<rparr>"

definition size0 :: "'a tensor \<Rightarrow> nat" where
  "size0 t = (case shape t of [] \<Rightarrow> 0 | n # _ \<Rightarrow> n)"

text \<open>
  \<^verbatim>\<open>xm.all_gather(value)\<close> of the runtime, with its default \<^verbatim>\<open>dim=0\<close>: the result has, in
  dimension 0, the values of all participating processes, one after the other in ordinal
  order, so its first dimension is the sum of theirs and the other dimensions stay. It reads
  \<^verbatim>\<open>value.size(0)\<close>, which a tensor without dimensions does not have.
\<close>

definition xm_all_gather :: "'a tensor xla \<Rightarrow> 'a tensor \<Rightarrow> error + 'a tensor" where
  "xm_all_gather xm v =
     (case shape v of
        [] \<Rightarrow> Inl (IndexError ''Dimension specified as 0 but tensor has no dimensions'')
      | n # rest \<Rightarrow>
          Inr (v\<lparr>shape := sum_list (map size0 (participants xm v)) # rest,
                 data := concat (map data (participants xm v))\<rparr>))"

definition all_gather :: "'a tensor xla \<Rightarrow> 'a tensor \<Rightarrow> error + 'a tensor" where
  "all_gather xm t = xm_all_gather xm (if dim t = 0 then unsqueeze0 t else t)"

text \<open>
  The serialiser (\<^verbatim>\<open>torch.save\<close> into a buffer, \<^verbatim>\<open>torch.load\<close> from one) is a parameter.
  \<^verbatim>\<open>data_tensor\<close> is the local variable of that name in \<^verbatim>\<open>broadcast\<close>:
  \<^verbatim>\<open>torch.tensor(data, device=self.root_device, dtype=torch.float)\<close>. \<^verbatim>\<open>buffer_of\<close> is
  \<^verbatim>\<open>data.cpu().byte().numpy()\<close> read as a buffer: each element cut towards zero to its
  integer part, and that to eight bits.
\<close>

record 'o serializer =
  torch_save :: "'o \<Rightarrow> 8 word list"
  torch_load :: "8 word list \<Rightarrow> 'o"

definition data_tensor :: "8 word list \<Rightarrow> device \<Rightarrow> rat tensor" where
  "data_tensor bytes dev =
     \<lparr>dtype = torch_float, device = dev, shape = [length bytes],
      data = map (\<lambda>b. of_nat (unat b)) bytes\<rparr>"

definition trunc :: "rat \<Rightarrow> int" where
  "trunc q = (if q < 0 then - \<lfloor>- q\<rfloor> else \<lfloor>q\<rfloor>)"

definition buffer_of :: "rat tensor \<Rightarrow> 8 word list" where
  "buffer_of t = map (\<lambda>q. word_of_int (trunc q)) (data t)"

definition broadcast ::
  "'o serializer \<Rightarrow> rat tensor xla \<Rightarrow> (string \<rightharpoonup> string) \<Rightarrow> strategy \<Rightarrow> 'o \<Rightarrow> nat
     \<Rightarrow> error + 'o" where
  "broadcast ser xm environ s obj src =
     (if \<not> is_distributed xm environ s then Inr obj
      else
        (let bytes = torch_save ser obj
         in case root_device xm s of
              Inl e \<Rightarrow> Inl e
            | Inr dev \<Rightarrow>
                (case xm_all_gather xm (data_tensor bytes dev) of
                   Inl e \<Rightarrow> Inl e
                 | Inr gathered \<Rightarrow> Inr (torch_load ser (buffer_of gathered)))))"

section \<open>Checkpoint removal\<close>

text \<open>
  The property \<^verbatim>\<open>checkpoint_io\<close> creates the default delegate on first access and stores
  it. A call of the delegate's \<^verbatim>\<open>remove_checkpoint\<close> is recorded in a log of the node's
  filesystem operations.
\<close>

datatype io_call = RemoveCheckpoint checkpoint_io string

definition checkpoint_io :: "strategy \<Rightarrow> checkpoint_io \<times> strategy" where
  "checkpoint_io s =
     (case checkpoint_io_attr s of
        None \<Rightarrow> (XLACheckpointIO, s\<lparr>checkpoint_io_attr := Some XLACheckpointIO\<rparr>)
      | Some io \<Rightarrow> (io, s))"

definition remove_checkpoint ::
  "strategy \<Rightarrow> string \<Rightarrow> io_call list \<Rightarrow> strategy \<times> io_call list" where
  "remove_checkpoint s filepath calls =
     (if local_rank s = 0
      then (let (io, s') = checkpoint_io s in (s', calls @ [RemoveCheckpoint io filepath]))
      else (s, calls))"

text \<open>Every process of a node, each with its own strategy object, makes the same call.\<close>

fun remove_checkpoint_on_all ::
  "strategy list \<Rightarrow> string \<Rightarrow> io_call list \<Rightarrow> strategy list \<times> io_call list" where
  "remove_checkpoint_on_all [] filepath calls = ([], calls)"
| "remove_checkpoint_on_all (s # ss) filepath calls =
     (let (s', calls') = remove_checkpoint s filepath calls;
          (ss', calls'') = remove_checkpoint_on_all ss filepath calls'
      in (s' # ss', calls''))"

section \<open>Dataloader validation\<close>

text \<open>
  A collection of dataloaders: a leaf, a \<^verbatim>\<open>Sequence\<close> of collections or a \<^verbatim>\<open>Mapping\<close> from
  keys to collections. \<^verbatim>\<open>has_len\<close> of the utilities is a parameter.
\<close>

datatype 'd collection =
    Leaf 'd
  | Sequence "'d collection list"
  | Mapping "(string \<times> 'd collection) list"

definition msg_has_len :: string where
  "msg_has_len = ''TPUs do not currently support IterableDataset objects, the dataset must implement `__len__`. HINT: You can mock the length on your dataset to bypass this MisconfigurationException.''"

definition check_has_len :: "('d \<Rightarrow> bool) \<Rightarrow> 'd \<Rightarrow> error + unit" where
  "check_has_len has_len dataloader =
     (if \<not> has_len dataloader then Inl (TypeError msg_has_len) else Inr ())"

text \<open>
  Modelled from the spec: \<^verbatim>\<open>apply_to_collection\<close> of the utilities is not among the
  sources. The spec says that the validation is "recursively applied across arbitrarily
  nested sequence/mapping containers of dataloaders" and that "every leaf dataloader must
  support length introspection": the function is applied to every element that is neither
  a \<^verbatim>\<open>Sequence\<close> nor a \<^verbatim>\<open>Mapping\<close> (\<^verbatim>\<open>dtype=object\<close>,
  \<^verbatim>\<open>wrong_dtype=(Sequence, Mapping)\<close>), the elements of a sequence and the values of a
  mapping are visited in order, and the first exception ends the traversal.
\<close>

fun apply_to_collection :: "'d collection \<Rightarrow> ('d \<Rightarrow> error + unit) \<Rightarrow> error + unit"
  and apply_to_elements :: "'d collection list \<Rightarrow> ('d \<Rightarrow> error + unit) \<Rightarrow> error + unit"
  and apply_to_items :: "(string \<times> 'd collection) list \<Rightarrow> ('d \<Rightarrow> error + unit) \<Rightarrow> error + unit"
where
  "apply_to_collection (Leaf d) function = function d"
| "apply_to_collection (Sequence xs) function = apply_to_elements xs function"
| "apply_to_collection (Mapping kvs) function = apply_to_items kvs function"
| "apply_to_elements [] function = Inr ()"
| "apply_to_elements (x # xs) function =
     (case apply_to_collection x function of
        Inl e \<Rightarrow> Inl e
      | Inr _ \<Rightarrow> apply_to_elements xs function)"
| "apply_to_items [] function = Inr ()"
| "apply_to_items (kv # kvs) function =
     (case apply_to_collection (snd kv) function of
        Inl e \<Rightarrow> Inl e
      | Inr _ \<Rightarrow> apply_to_items kvs function)"

definition validate_dataloader :: "('d \<Rightarrow> bool) \<Rightarrow> 'd collection \<Rightarrow> error + unit" where
  "validate_dataloader has_len dataloaders =
     apply_to_collection dataloaders (check_has_len has_len)"

section \<open>The optimizer step of the ColossalAI precision plugin\<close>

text \<open>
  \<^verbatim>\<open>isinstance(model, pl.LightningModule)\<close> and, for a LightningModule, its attribute
  \<^verbatim>\<open>automatic_optimization\<close>.
\<close>

datatype model = LightningModule bool | OtherModule

text \<open>
  The training state that the closure, the hooks of \<^verbatim>\<open>_after_closure\<close> and the optimizer
  work on is a parameter; \<^verbatim>\<open>step_calls\<close> counts the calls of \<^verbatim>\<open>optimizer.step()\<close>.
\<close>

record 'w training =
  state :: 'w
  step_calls :: nat

record ('w, 'r) collaborators =
  closure :: "'w \<Rightarrow> 'r option \<times> 'w"
  after_closure :: "model \<Rightarrow> int \<Rightarrow> 'w \<Rightarrow> 'w"
  step :: "'w \<Rightarrow> 'w"

definition msg_skipped_backward :: string where
  "msg_skipped_backward = ''Skipping backward by returning `None` from your `training_step` is not supported by `Colossalai`''"

definition optimizer_step ::
  "('w, 'r) collaborators \<Rightarrow> model \<Rightarrow> int \<Rightarrow> 'w training \<Rightarrow> error option \<times> 'w training" where
  "optimizer_step c model optimizer_idx t =
     (let (closure_result, w1) = closure c (state t);
          w2 = after_closure c model optimizer_idx w1;
          skipped_backward = (closure_result = None)
      in if (case model of LightningModule automatic_optimization \<Rightarrow> automatic_optimization
                         | OtherModule \<Rightarrow> False) \<and> skipped_backward
         then (Some (MisconfigurationException msg_skipped_backward), t\<lparr>state := w2\<rparr>)
         else (None, t\<lparr>state := step c w2, step_calls := Suc (step_calls t)\<rparr>))"

section \<open>Concrete configurations\<close>

definition ex_xla :: "rat xla" where
  "ex_xla =
     \<lparr>xla_device = XLA 1, HOST_WORLD_SIZE = ''XRT_HOST_WORLD_SIZE'',
      peers_before = [1], peers_after = [4]\<rparr>"

definition ex_strategy :: strategy where
  "ex_strategy =
     \<lparr>launched = True, checkpoint_io_attr = None, local_rank = 1, global_rank = 1,
      world_size = 3\<rparr>"

definition ex_cluster :: cluster_environment where
  "ex_cluster =
     \<lparr>local_rank_of = (\<lambda>i. i), global_rank_of = (\<lambda>i. 8 + i), world_size_of = (\<lambda>i. 16)\<rparr>"

definition ex_process :: process where
  "ex_process = \<lparr>self = TPUSpawnStrategy_init None 0 0 1, rank_zero_only_rank = None\<rparr>"

definition ex_torch_tensor :: "int \<Rightarrow> device \<Rightarrow> rat" where
  "ex_torch_tensor v dev = of_int v"

definition ex_gather_xla :: "int tensor xla" where
  "ex_gather_xla =
     \<lparr>xla_device = XLA 0, HOST_WORLD_SIZE = ''XRT_HOST_WORLD_SIZE'', peers_before = [],
      peers_after = [\<lparr>dtype = torch_int64, device = XLA 1, shape = [2], data = [3, 4]\<rparr>]\<rparr>"

definition ex_batch :: "int tensor" where
  "ex_batch = \<lparr>dtype = torch_int64, device = XLA 0, shape = [2], data = [1, 2]\<rparr>"

definition ex_serializer :: "nat serializer" where
  "ex_serializer =
     \<lparr>torch_save = (\<lambda>n. [of_nat n]),
      torch_load = (\<lambda>bs. case bs of [] \<Rightarrow> 0 | b # _ \<Rightarrow> unat b)\<rparr>"

definition ex_bcast_xla :: "rat tensor xla" where
  "ex_bcast_xla =
     \<lparr>xla_device = XLA 0, HOST_WORLD_SIZE = ''XRT_HOST_WORLD_SIZE'', peers_before = [],
      peers_after = [\<lparr>dtype = torch_float, device = XLA 1, shape = [1], data = [65]\<rparr>]\<rparr>"

definition ex_environ :: "string \<rightharpoonup> string" where
  "ex_environ = [''XRT_HOST_WORLD_SIZE'' \<mapsto> ''1'']"

definition ex_node :: "strategy list" where
  "ex_node =
     [ex_strategy\<lparr>local_rank := 0\<rparr>, ex_strategy, ex_strategy\<lparr>local_rank := 2\<rparr>]"

definition ex_has_len :: "nat option \<Rightarrow> bool" where
  "ex_has_len d = (d \<noteq> None)"

definition ex_dataloaders :: "nat option collection" where
  "ex_dataloaders = Mapping [(''train'', Sequence [Leaf (Some 10), Leaf None])]"

definition ex_collaborators :: "(nat, int) collaborators" where
  "ex_collaborators =
     \<lparr>closure = (\<lambda>w. (if w = 0 then None else Some 1, Suc w)),
      after_closure = (\<lambda>m i w. w + 10),
      step = (\<lambda>w. w + 100)\<rparr>"

section \<open>Device access and launch\<close>

text \<open>
  Claim C1. Reading \<^verbatim>\<open>root_device\<close> of a strategy that has not been launched raises
  the RuntimeError of the launch guard; this holds in particular for a freshly constructed
  strategy. After \<^verbatim>\<open>_worker_setup\<close> has run in the process, for any process index,
  reading \<^verbatim>\<open>root_device\<close> returns the device handle of the runtime.
\<close>

theorem root_device_launch_guard:
  "(\<not> launched s \<longrightarrow> root_device xm s = Inl (RuntimeError msg_root_device)) \<and>
   root_device xm (TPUSpawnStrategy_init cio l g w) = Inl (RuntimeError msg_root_device) \<and>
   root_device xm (self (worker_setup env process_idx p)) = Inr (xla_device xm)"
  by (simp add: root_device_def TPUSpawnStrategy_init_def worker_setup_def
      set_world_ranks_def Let_def)

theorem root_device_launch_guard_witness:
  "\<not> launched (self ex_process) \<and>
   root_device ex_xla (self ex_process) = Inl (RuntimeError msg_root_device) \<and>
   root_device ex_xla (self (worker_setup ex_cluster 3 ex_process)) = Inr (XLA 1)"
  using root_device_launch_guard [of "self ex_process" ex_xla None 0 0 1 ex_cluster 3 ex_process]
  by (simp add: ex_process_def TPUSpawnStrategy_init_def ex_xla_def)

section \<open>Reduce\<close>

lemma py_sum_sum_list: "py_sum xs = sum_list (xs :: 'a::monoid_add list)"
proof -
  have "foldl (+) a xs = a + sum_list xs" for a :: 'a
    by (induction xs arbitrary: a) (simp_all add: add.assoc)
  from this [of 0] show ?thesis by (simp add: py_sum_def)
qed

lemma to_tensor_reaches:
  "launched s \<or> (\<exists>t. out = Tensor t) \<Longrightarrow>
     to_tensor tt xm s out = Inr (local_tensor tt xm out)"
  by (auto simp: to_tensor_def local_tensor_def root_device_def split: tensor_or_any.splits)

text \<open>
  The coercion of a non-tensor input reads the device, so on a strategy that has not been
  launched it raises the launch guard's error before the operation is looked at.
\<close>

lemma reduce_unlaunched_non_tensor:
  "\<not> launched s \<Longrightarrow> reduce tt xm s (NonTensor v) rop = Inl (RuntimeError msg_root_device)"
  by (simp add: reduce_def to_tensor_def root_device_def)

lemma reduce_reached:
  "launched s \<or> (\<exists>t. out = Tensor t) \<Longrightarrow>
   reduce tt xm s out rop =
     (if invalid_reduce_op rop \<or> invalid_reduce_op_str rop
      then Inl (ValueError (msg_reduce @ py_format rop))
      else Inr (if is_mean rop
                then sum_list (participants xm (local_tensor tt xm out)) / of_nat (world_size s)
                else sum_list (participants xm (local_tensor tt xm out))))"
  by (simp add: reduce_def to_tensor_reaches mesh_reduce_def py_sum_sum_list Let_def)

lemma reduce_ValueError_only_from_validation:
  "reduce tt xm s out rop = Inl (ValueError m) \<Longrightarrow>
     (invalid_reduce_op rop \<or> invalid_reduce_op_str rop) \<and> m = msg_reduce @ py_format rop"
  by (auto simp: reduce_def to_tensor_def root_device_def Let_def
      split: sum.splits tensor_or_any.splits if_splits)

lemma lower_examples:
  "lower ''SuM'' = ''sum''" "lower ''MEAN'' = ''mean''" "lower ''Avg'' = ''avg''"
  "lower ''max'' = ''max''"
  by code_simp+



text \<open>
  Claim C3, as stated, fails: the default operation \<^verbatim>\<open>None\<close> is a value outside
  \<^verbatim>\<open>sum\<close>, \<^verbatim>\<open>mean\<close>, \<^verbatim>\<open>avg\<close>, and the call returns the sum instead of raising.
\<close>

theorem reduce_default_op_counterexample:
  "reduce ex_torch_tensor ex_xla ex_strategy (Tensor 7) PyNone = Inr 12"
  by (simp add: reduce_reached ex_strategy_def ex_xla_def invalid_reduce_op_def
      invalid_reduce_op_str_def is_mean_def participants_def local_tensor_def)

text \<open>
  Claim C3, amended. For a call that gets past the coercion of its input, \<^verbatim>\<open>reduce\<close>
  raises the ValueError whose message ends with the given operation for every string that
  in lower case is none of \<^verbatim>\<open>sum\<close>, \<^verbatim>\<open>mean\<close>, \<^verbatim>\<open>avg\<close>, and for every \<^verbatim>\<open>ReduceOp\<close>
  other than \<^verbatim>\<open>SUM\<close>; and these are the only operations for which it raises a ValueError:
  \<^verbatim>\<open>None\<close> and values of any other type are accepted.
\<close>

theorem reduce_rejects_invalid_op:
  assumes "launched s \<or> (\<exists>t. out = Tensor t)"
  shows "(lower x \<notin> {''sum'', ''mean'', ''avg''} \<longrightarrow>
            reduce tt xm s out (PyStr x) = Inl (ValueError (msg_reduce @ x))) \<and>
         (k \<noteq> ReduceOp_SUM \<longrightarrow>
            reduce tt xm s out (PyReduceOp k) =
              Inl (ValueError (msg_reduce @ str_ReduceOp k))) \<and>
         ((\<exists>m. reduce tt xm s out rop = Inl (ValueError m)) \<longleftrightarrow>
            (\<exists>y. rop = PyStr y \<and> lower y \<notin> {''sum'', ''mean'', ''avg''}) \<or>
            (\<exists>j. rop = PyReduceOp j \<and> j \<noteq> ReduceOp_SUM))"
  using assms
  by (auto simp: reduce_reached invalid_reduce_op_def invalid_reduce_op_str_def
      split: reduce_op_arg.splits)

theorem reduce_rejects_invalid_op_witness:
  "launched ex_strategy \<and> lower ''max'' \<notin> {''sum'', ''mean'', ''avg''} \<and>
   ReduceOp_MAX \<noteq> ReduceOp_SUM \<and>
   reduce ex_torch_tensor ex_xla ex_strategy (NonTensor 7) (PyStr ''max'') =
     Inl (ValueError (msg_reduce @ ''max'')) \<and>
   reduce ex_torch_tensor ex_xla ex_strategy (NonTensor 7) (PyReduceOp ReduceOp_MAX) =
     Inl (ValueError (msg_reduce @ ''ReduceOp.MAX''))"
  using reduce_rejects_invalid_op
          [of ex_strategy "NonTensor 7" "''max''" ex_torch_tensor ex_xla ReduceOp_MAX]
    lower_examples
  by (simp add: ex_strategy_def)

text \<open>
  Claim C10. With the operation \<^verbatim>\<open>None\<close>, or any value that is neither a string nor a
  \<^verbatim>\<open>ReduceOp\<close>, both validation tests are false and no ValueError is raised; a call that
  gets past the coercion of its input returns the plain sum of the inputs of all processes,
  not divided by the world size. A ValueError is raised for strings and \<^verbatim>\<open>ReduceOp\<close>
  values only.
\<close>

theorem reduce_unvalidated_op:
  assumes "rop = PyNone \<or> rop = PyObject r"
  shows "\<not> invalid_reduce_op rop \<and> \<not> invalid_reduce_op_str rop \<and>
         (\<forall>m. reduce tt xm s out rop \<noteq> Inl (ValueError m)) \<and>
         (launched s \<or> (\<exists>t. out = Tensor t) \<longrightarrow>
            reduce tt xm s out rop =
              Inr (sum_list (participants xm (local_tensor tt xm out)))) \<and>
         (reduce tt xm s out rop' = Inl (ValueError m') \<longrightarrow>
            (\<exists>y. rop' = PyStr y) \<or> (\<exists>j. rop' = PyReduceOp j))"
proof -
  have v: "\<not> invalid_reduce_op rop" "\<not> invalid_reduce_op_str rop" "\<not> is_mean rop"
    using assms by (auto simp: invalid_reduce_op_def invalid_reduce_op_str_def is_mean_def)
  have a: "reduce tt xm s out rop \<noteq> Inl (ValueError m)" for m
    using reduce_ValueError_only_from_validation [of tt xm s out rop m] v by blast
  have b: "launched s \<or> (\<exists>t. out = Tensor t) \<longrightarrow>
            reduce tt xm s out rop =
              Inr (sum_list (participants xm (local_tensor tt xm out)))"
    using v by (simp add: reduce_reached)
  have c: "reduce tt xm s out rop' = Inl (ValueError m') \<longrightarrow>
            (\<exists>y. rop' = PyStr y) \<or> (\<exists>j. rop' = PyReduceOp j)"
    using reduce_ValueError_only_from_validation [of tt xm s out rop' m']
    by (auto simp: invalid_reduce_op_def invalid_reduce_op_str_def
        split: reduce_op_arg.splits)
  from v a b c show ?thesis by blast
qed

theorem reduce_unvalidated_op_witness:
  "\<not> invalid_reduce_op (PyObject ''5'') \<and> launched ex_strategy \<and>
   reduce ex_torch_tensor ex_xla ex_strategy (NonTensor 7) (PyObject ''5'') = Inr 12"
  using reduce_unvalidated_op
          [of "PyObject ''5''" "''5''" ex_torch_tensor ex_xla ex_strategy "NonTensor 7"]
  by (simp add: ex_strategy_def ex_xla_def ex_torch_tensor_def participants_def
      local_tensor_def)

section \<open>Checkpoint removal\<close>

lemma remove_checkpoint_on_all_Cons:
  "snd (remove_checkpoint_on_all (s # ss) p calls) =
     snd (remove_checkpoint_on_all ss p (snd (remove_checkpoint s p calls)))"
  by (simp split: prod.splits)

lemma remove_checkpoint_calls:
  "snd (remove_checkpoint s p calls) =
     (if local_rank s = 0 then calls @ [RemoveCheckpoint (fst (checkpoint_io s)) p]
      else calls)"
  by (simp add: remove_checkpoint_def split: prod.splits)

lemma remove_checkpoint_on_all_calls:
  "snd (remove_checkpoint_on_all ss p calls) =
     calls @ map (\<lambda>s. RemoveCheckpoint (fst (checkpoint_io s)) p)
               (filter (\<lambda>s. local_rank s = 0) ss)"
proof (induction ss arbitrary: calls)
  case Nil
  then show ?case by simp
next
  case (Cons s ss)
  show ?case
    unfolding remove_checkpoint_on_all_Cons Cons.IH remove_checkpoint_calls by simp
qed

lemma distinct_rank_zero_once:
  "distinct (map local_rank ss) \<Longrightarrow> length (filter (\<lambda>s. local_rank s = 0) ss) \<le> 1"
proof (induction ss)
  case Nil
  then show ?case by simp
next
  case (Cons s ss)
  show ?case
  proof (cases "local_rank s = 0")
    case True
    with Cons.prems have "\<forall>x\<in>set ss. local_rank x \<noteq> 0" by force
    then have "filter (\<lambda>s. local_rank s = 0) ss = []" by (simp add: filter_empty_conv)
    with True show ?thesis by simp
  next
    case False
    with Cons show ?thesis by simp
  qed
qed

text \<open>
  Claim C4. A call of \<^verbatim>\<open>remove_checkpoint\<close> on local rank 0 invokes the delegate's
  \<^verbatim>\<open>remove_checkpoint\<close> once, with the given path; on any other local rank it invokes
  nothing and leaves the strategy as it was. When the processes of a node, whose local
  ranks are distinct, all make the call, the node's log grows by at most one removal.
\<close>

theorem remove_checkpoint_rank_zero_only:
  "(local_rank s = 0 \<longrightarrow>
      snd (remove_checkpoint s p calls) =
        calls @ [RemoveCheckpoint (fst (checkpoint_io s)) p]) \<and>
   (local_rank s \<noteq> 0 \<longrightarrow> remove_checkpoint s p calls = (s, calls)) \<and>
   (distinct (map local_rank ss) \<longrightarrow>
      take (length calls) (snd (remove_checkpoint_on_all ss p calls)) = calls \<and>
      length (snd (remove_checkpoint_on_all ss p calls)) \<le> Suc (length calls))"
  using distinct_rank_zero_once [of ss]
  by (auto simp: remove_checkpoint_def remove_checkpoint_on_all_calls split: prod.splits)

theorem remove_checkpoint_rank_zero_only_witness:
  "local_rank (ex_strategy\<lparr>local_rank := 0\<rparr>) = 0 \<and> local_rank ex_strategy \<noteq> 0 \<and>
   distinct (map local_rank ex_node) \<and>
   snd (remove_checkpoint (ex_strategy\<lparr>local_rank := 0\<rparr>) ''last.ckpt'' []) =
     [RemoveCheckpoint XLACheckpointIO ''last.ckpt''] \<and>
   remove_checkpoint ex_strategy ''last.ckpt'' [] = (ex_strategy, []) \<and>
   length (snd (remove_checkpoint_on_all ex_node ''last.ckpt'' [])) \<le> Suc 0"
  using remove_checkpoint_rank_zero_only
          [of "ex_strategy\<lparr>local_rank := 0\<rparr>" "''last.ckpt''" "[]" ex_node]
    remove_checkpoint_rank_zero_only [of ex_strategy "''last.ckpt''" "[]" ex_node]
  by (simp add: ex_strategy_def ex_node_def checkpoint_io_def)

section \<open>Broadcast and all-gather\<close>

text \<open>
  Claim C5. \<^verbatim>\<open>is_distributed\<close> is false exactly when the variable named by
  \<^verbatim>\<open>HOST_WORLD_SIZE\<close> is absent from the environment or the world size is 1, and then
  \<^verbatim>\<open>broadcast\<close> returns the object it was given, for every object and source rank.
\<close>

theorem broadcast_identity_when_not_distributed:
  "(\<not> is_distributed xm environ s \<longleftrightarrow>
      environ (HOST_WORLD_SIZE xm) = None \<or> world_size s = 1) \<and>
   (\<not> is_distributed xm environ s \<longrightarrow> broadcast ser xm environ s obj src = Inr obj)"
  by (auto simp: broadcast_def is_distributed_def)

theorem broadcast_identity_when_not_distributed_witness:
  "\<not> is_distributed ex_bcast_xla Map.empty ex_strategy \<and>
   broadcast ex_serializer ex_bcast_xla Map.empty ex_strategy 300 2 = Inr 300"
  using broadcast_identity_when_not_distributed
          [of ex_bcast_xla Map.empty ex_strategy ex_serializer 300 2]
  by simp

lemma all_gather_zero_dim:
  assumes "shape t = []"
  shows "all_gather xm t =
           Inr (t\<lparr>shape := [sum_list (map size0 (participants xm (unsqueeze0 t)))],
                  data := concat (map data (participants xm (unsqueeze0 t)))\<rparr>)"
  using assms by (simp add: all_gather_def xm_all_gather_def dim_def unsqueeze0_def)

text \<open>
  A tensor without dimensions is given one dimension before the gather; when every
  process passes the value \<open>v\<close>, the result is \<open>v\<close> repeated once per process.
\<close>

lemma all_gather_same_value:
  assumes "shape t = []" and "data t = [v]"
    and "\<forall>p\<in>set (peers_before xm @ peers_after xm). shape p = [1] \<and> data p = [v]"
  shows "all_gather xm t =
           Inr (t\<lparr>shape := [length (participants xm t)],
                  data := replicate (length (participants xm t)) v\<rparr>)"
proof -
  have s: "sum_list (map size0 ps) = length ps"
    if "\<forall>p\<in>set ps. shape p = [1]" for ps :: "'a tensor list"
    using that by (induction ps) (simp_all add: size0_def)
  have d: "concat (map data ps) = replicate (length ps) v"
    if "\<forall>p\<in>set ps. data p = [v]" for ps :: "'a tensor list"
    using that by (induction ps) simp_all
  have "\<forall>p\<in>set (participants xm (unsqueeze0 t)). shape p = [1] \<and> data p = [v]"
    using assms by (auto simp: participants_def unsqueeze0_def)
  then have "sum_list (map size0 (participants xm (unsqueeze0 t))) =
               length (participants xm (unsqueeze0 t))"
    and "concat (map data (participants xm (unsqueeze0 t))) =
           replicate (length (participants xm (unsqueeze0 t))) v"
    using s d by blast+
  then show ?thesis
    using assms(1) by (simp add: all_gather_zero_dim participants_def)
qed

text \<open>
  A tensor with dimensions is gathered as it is: the first dimension of the result is the
  sum of the first dimensions of all processes, and no dimension is added.
\<close>

lemma all_gather_batch:
  assumes "shape t = n # rest"
  shows "\<exists>g. all_gather xm t = Inr g \<and>
           shape g = (sum_list (map size0 (peers_before xm)) + n +
                      sum_list (map size0 (peers_after xm))) # rest"
  using assms
  by (simp add: all_gather_def xm_all_gather_def dim_def participants_def size0_def)

text \<open>
  Claim C6 and the docstring of \<^verbatim>\<open>all_gather\<close> promise a result of shape
  \<^verbatim>\<open>(world_size, batch, ...)\<close> for an input of shape \<^verbatim>\<open>(batch, ...)\<close>. With two processes that
  each pass a tensor of shape \<^verbatim>\<open>(2)\<close>, the code returns the four values in one dimension,
  shape \<^verbatim>\<open>(4)\<close>, where the promise is shape \<^verbatim>\<open>(2, 2)\<close>.
\<close>

theorem all_gather_batch_shape:
  "all_gather ex_gather_xla ex_batch =
     Inr \<lparr>dtype = torch_int64, device = XLA 0, shape = [4], data = [1, 2, 3, 4]\<rparr>"
  by (simp add: all_gather_def xm_all_gather_def dim_def ex_gather_xla_def ex_batch_def
      participants_def size0_def)

lemma byte_roundtrip: "word_of_int (trunc (of_nat (unat b))) = (b :: 8 word)"
proof -
  have "\<lfloor>(of_nat (unat b) :: rat)\<rfloor> = int (unat b)" by (rule floor_of_nat)
  moreover have "\<not> (of_nat (unat b) :: rat) < 0"
    by (simp only: of_nat_less_0_iff not_False_eq_True)
  ultimately have "trunc (of_nat (unat b)) = int (unat b)"
    by (simp only: trunc_def if_False)
  then show ?thesis by simp
qed

text \<open>The way through the float tensor and back loses nothing of a buffer.\<close>

lemma buffer_of_data_tensor: "buffer_of (data_tensor bytes dev) = bytes"
proof -
  have "map (\<lambda>q. word_of_int (trunc q)) (map (\<lambda>b. (of_nat (unat b) :: rat)) bs) = bs"
    for bs :: "8 word list"
    by (induction bs) (simp_all only: list.map byte_roundtrip)
  then show ?thesis
    by (simp only: buffer_of_def data_tensor_def tensor.simps)
qed

text \<open>
  Claim C8, as stated, fails in one step: the tensor that wraps the byte buffer and goes
  into the all-gather is not a byte tensor, its element type is \<^verbatim>\<open>torch.float\<close>.
\<close>

theorem broadcast_data_tensor_dtype_counterexample:
  "dtype (data_tensor (torch_save ex_serializer 65) (xla_device ex_bcast_xla)) \<noteq> torch_uint8"
  by (simp add: data_tensor_def)

text \<open>
  Claim C8, amended. When \<^verbatim>\<open>is_distributed\<close> is true on a launched strategy,
  \<^verbatim>\<open>broadcast\<close> serialises the object to a byte buffer, wraps the buffer as a float tensor
  on the bound device (one element per byte, from which the bytes can be read back),
  all-gathers the float tensors of all processes, converts the gathered tensor back to
  bytes and deserialises that buffer to produce the returned object.
\<close>

theorem broadcast_distributed:
  assumes "is_distributed xm environ s" and "launched s"
  shows "dtype (data_tensor (torch_save ser obj) (xla_device xm)) = torch_float \<and>
         device (data_tensor (torch_save ser obj) (xla_device xm)) = xla_device xm \<and>
         buffer_of (data_tensor (torch_save ser obj) (xla_device xm)) = torch_save ser obj \<and>
         (\<exists>gathered.
            xm_all_gather xm (data_tensor (torch_save ser obj) (xla_device xm)) = Inr gathered \<and>
            data gathered =
              concat (map data
                (participants xm (data_tensor (torch_save ser obj) (xla_device xm)))) \<and>
            broadcast ser xm environ s obj src = Inr (torch_load ser (buffer_of gathered)))"
  using assms
  by (simp add: broadcast_def root_device_def Let_def buffer_of_data_tensor)
     (simp add: data_tensor_def xm_all_gather_def)

theorem broadcast_distributed_witness:
  "is_distributed ex_bcast_xla ex_environ ex_strategy \<and> launched ex_strategy \<and>
   broadcast ex_serializer ex_bcast_xla ex_environ ex_strategy 66 0 = Inr 66"
  using broadcast_distributed
          [of ex_bcast_xla ex_environ ex_strategy ex_serializer 66 0]
  by (auto simp: is_distributed_def ex_bcast_xla_def ex_environ_def ex_strategy_def
      ex_serializer_def data_tensor_def xm_all_gather_def participants_def buffer_of_def
      trunc_def)

section \<open>Dataloader validation\<close>

lemma apply_to_collection_check:
  "apply_to_collection c (check_has_len has_len) =
     (if \<forall>d\<in>set_collection c. has_len d then Inr () else Inl (TypeError msg_has_len))"
  "apply_to_elements xs (check_has_len has_len) =
     (if \<forall>c\<in>set xs. \<forall>d\<in>set_collection c. has_len d then Inr ()
      else Inl (TypeError msg_has_len))"
  "apply_to_items kvs (check_has_len has_len) =
     (if \<forall>kv\<in>set kvs. \<forall>d\<in>set_collection (snd kv). has_len d then Inr ()
      else Inl (TypeError msg_has_len))"
proof (induction c "check_has_len has_len" and xs "check_has_len has_len"
    and kvs "check_has_len has_len"
    rule: apply_to_collection_apply_to_elements_apply_to_items.induct)
  case (1 d)
  then show ?case by (simp add: check_has_len_def)
next
  case (2 xs)
  then show ?case by auto
next
  case (3 kvs)
  then show ?case by (auto; force)
next
  case 4
  then show ?case by simp
next
  case (5 x xs)
  then show ?case by (auto split: sum.splits)
next
  case 6
  then show ?case by simp
next
  case (7 kv kvs)
  then show ?case by (auto split: sum.splits)
qed

text \<open>
  Claim C7. The validation goes through sequences and mappings nested to any depth and
  raises its error if and only if some leaf dataloader has no length; a collection whose
  leaves all have a length passes. A dataloader without length inside a list inside a
  mapping is rejected.
\<close>

theorem validate_dataloader_rejects_iff:
  "(validate_dataloader has_len c = Inl (TypeError msg_has_len) \<longleftrightarrow>
      (\<exists>d\<in>set_collection c. \<not> has_len d)) \<and>
   (validate_dataloader has_len c = Inr () \<longleftrightarrow> (\<forall>d\<in>set_collection c. has_len d))"
  by (simp add: validate_dataloader_def apply_to_collection_check)

theorem validate_dataloader_rejects_iff_witness:
  "None \<in> set_collection ex_dataloaders \<and> \<not> ex_has_len None \<and>
   validate_dataloader ex_has_len ex_dataloaders = Inl (TypeError msg_has_len) \<and>
   validate_dataloader ex_has_len (Mapping [(''train'', Sequence [Leaf (Some 10)])]) = Inr ()"
  using validate_dataloader_rejects_iff [of ex_has_len ex_dataloaders]
    validate_dataloader_rejects_iff
      [of ex_has_len "Mapping [(''train'', Sequence [Leaf (Some 10)])]"]
  by (auto simp: ex_dataloaders_def ex_has_len_def)

section \<open>The optimizer step of the ColossalAI precision plugin\<close>

text \<open>
  Claim C9. \<^verbatim>\<open>optimizer_step\<close> raises the MisconfigurationException, with no call of
  \<^verbatim>\<open>optimizer.step()\<close>, when the closure returned \<^verbatim>\<open>None\<close> and the model is a LightningModule
  with automatic optimization; in every other case it calls \<^verbatim>\<open>optimizer.step()\<close> once and
  raises nothing.
\<close>

theorem optimizer_step_skipped_backward:
  "(fst (closure c (state t)) = None \<and> model = LightningModule True \<longrightarrow>
      fst (optimizer_step c model idx t) =
        Some (MisconfigurationException msg_skipped_backward) \<and>
      step_calls (snd (optimizer_step c model idx t)) = step_calls t) \<and>
   (\<not> (fst (closure c (state t)) = None \<and> model = LightningModule True) \<longrightarrow>
      fst (optimizer_step c model idx t) = None \<and>
      step_calls (snd (optimizer_step c model idx t)) = Suc (step_calls t))"
  by (auto simp: optimizer_step_def Let_def split: prod.splits model.splits)

theorem optimizer_step_skipped_backward_witness:
  "fst (closure ex_collaborators 0) = None \<and>
   optimizer_step ex_collaborators (LightningModule True) 0 \<lparr>state = 0, step_calls = 0\<rparr> =
     (Some (MisconfigurationException msg_skipped_backward), \<lparr>state = 11, step_calls = 0\<rparr>) \<and>
   fst (closure ex_collaborators 5) \<noteq> None \<and>
   optimizer_step ex_collaborators (LightningModule True) 0 \<lparr>state = 5, step_calls = 0\<rparr> =
     (None, \<lparr>state = 116, step_calls = 1\<rparr>)"
  using optimizer_step_skipped_backward
          [of ex_collaborators "\<lparr>state = 0, step_calls = 0\<rparr>" "LightningModule True" 0]
    optimizer_step_skipped_backward
          [of ex_collaborators "\<lparr>state = 5, step_calls = 0\<rparr>" "LightningModule True" 0]
  by (simp add: ex_collaborators_def optimizer_step_def)

end
